theory Spec2Isabelle
  imports Main
begin

section \<open>Values and records\<close>

text \<open>
  The values that flow through the item routes. A request body is a parsed JSON value, or
  \<open>Undefined\<close> when the request carried none. An object is the list of its bindings;
  a property is read at its first binding (the keys of a parsed object are distinct).
  No function below looks inside a number, so \<open>Num\<close> carries an integer.
\<close>

datatype jsval =
    Undefined
  | Null
  | Bool bool
  | Num int
  | Str string
  | Arr "jsval list"
  | Obj "(string \<times> jsval) list"

text \<open>
  An item is the object \<open>{ id, name }\<close>. The id is a string on every path that builds one
  (the uuid of \<open>add\<close>, the string ids of the initial data); the name is whatever value the
  caller handed to the service, so it is a \<open>jsval\<close>.
\<close>

record item =
  item_id :: string
  item_name :: jsval

text \<open>
  What a service function hands back where the source returns an item,
  \<open>undefined\<close> (\<open>Array.prototype.find\<close> without a match) or \<open>null\<close>.
\<close>

datatype svc_result = JsUndefined | JsNull | Found item

text \<open>JavaScript truthiness, as the controllers' \<open>if (!item)\<close> tests it.\<close>

fun truthy :: "svc_result \<Rightarrow> bool" where
  "truthy JsUndefined = False"
| "truthy JsNull = False"
| "truthy (Found x) = True"

section \<open>Array primitives\<close>

text \<open>\<open>Array.prototype.findIndex\<close>: the index of the first match, \<open>-1\<close> without one.\<close>

fun findIndex :: "('a \<Rightarrow> bool) \<Rightarrow> 'a list \<Rightarrow> int" where
  "findIndex P [] = - 1"
| "findIndex P (x # xs) =
     (if P x then 0
      else (let r = findIndex P xs in if r = - 1 then - 1 else r + 1))"

text \<open>
  \<open>Array.prototype.splice(start, count)\<close> for \<open>0 \<le> start\<close>: the removed elements and
  the array that is left.
\<close>

definition splice_arr :: "nat \<Rightarrow> nat \<Rightarrow> 'a list \<Rightarrow> 'a list \<times> 'a list" where
  "splice_arr start cnt xs = (take cnt (drop start xs), take start xs @ drop (start + cnt) xs)"

text \<open>Element \<open>[0]\<close> of an array of items: \<open>undefined\<close> when the array is empty.\<close>

fun first_elem :: "item list \<Rightarrow> svc_result" where
  "first_elem [] = JsUndefined"
| "first_elem (x # xs) = Found x"

section \<open>The service layer (routes/itemsServices.js)\<close>

text \<open>
  The module-level array \<open>items\<close> is passed in and returned. \<open>add\<close> takes the string
  that its call of \<open>uuidv4()\<close> returns as the argument \<open>uuid\<close>; the generator is a
  library outside the sources, modelled in its own section below. The source's \<open>remove\<close> is
  \<open>remove_item\<close> here and \<open>splice\<close> is \<open>splice_arr\<close>, the plain names being constants of
  the HOL library.
\<close>

definition getAll :: "item list \<Rightarrow> item list" where
  "getAll items = items"

definition findId :: "string \<Rightarrow> item list \<Rightarrow> svc_result" where
  "findId i items =
     (case List.find (\<lambda>item. item_id item = i) items of
        None \<Rightarrow> JsUndefined
      | Some item \<Rightarrow> Found item)"

definition add :: "string \<Rightarrow> jsval \<Rightarrow> item list \<Rightarrow> item \<times> item list" where
  "add uuid name items =
     (let item = \<lparr>item_id = uuid, item_name = name\<rparr>
      in (item, items @ [item]))"

definition remove_item :: "string \<Rightarrow> item list \<Rightarrow> svc_result \<times> item list" where
  "remove_item i items =
     (let index = findIndex (\<lambda>item. item_id item = i) items
      in if index = - 1 then (JsNull, items)
         else (let (removed, rest) = splice_arr (nat index) 1 items
               in (first_elem removed, rest)))"

definition update :: "string \<Rightarrow> jsval \<Rightarrow> item list \<Rightarrow> svc_result \<times> item list" where
  "update i name items =
     (let index = findIndex (\<lambda>item. item_id item = i) items
      in if index = - 1 then (JsNull, items)
         else (let items' = items[nat index := (items ! nat index)\<lparr>item_name := name\<rparr>]
               in (Found (items' ! nat index), items')))"

section \<open>The route schemas (routes/itemsSchema.js)\<close>

text \<open>
  The \<open>body\<close> part of a route schema: its \<open>type\<close>, its \<open>required\<close> list and its
  \<open>properties\<close>. The \<open>response\<close> parts describe how a reply is serialised and take no
  part in accepting a request, so a schema is kept as its optional \<open>body\<close> part.
\<close>

datatype jstype = TString | TObject | TArray

record body_schema =
  bs_type :: jstype
  bs_required :: "string list"
  bs_properties :: "(string \<times> jstype) list"

record schema =
  schema_body :: "body_schema option"

definition getItemsSchema :: schema where
  "getItemsSchema = \<lparr>schema_body = None\<rparr>"

definition getItemSchema :: schema where
  "getItemSchema = \<lparr>schema_body = None\<rparr>"

definition addItemSchema :: schema where
  "addItemSchema =
     \<lparr>schema_body = Some \<lparr>bs_type = TObject, bs_required = [''name''],
                            bs_properties = [(''name'', TString)]\<rparr>\<rparr>"

definition deleteItemSchema :: schema where
  "deleteItemSchema = \<lparr>schema_body = None\<rparr>"

definition updateItemSchema :: schema where
  "updateItemSchema = \<lparr>schema_body = None\<rparr>"

section \<open>The controllers (routes/itemsController.js)\<close>

text \<open>
  The state a handler runs in: the \<open>items\<close> array, and a ghost log \<open>svc_calls\<close> that
  records, in order, every call a controller makes into the service module. The source
  keeps no such log; it is here so that "the service is not called" can be stated.
\<close>

datatype svc_call =
    CallGetAll
  | CallFindId string
  | CallAdd jsval
  | CallRemove string
  | CallUpdate string jsval

record world =
  items :: "item list"
  svc_calls :: "svc_call list"

text \<open>
  What a handler reads of the request: \<open>req.params.id\<close> and \<open>req.body\<close>. The three
  handlers that read \<open>params_id\<close> are registered on \<open>/items/:id\<close> only, where the router
  binds it to the second path segment, a string.
\<close>

record request =
  params_id :: string
  body :: jsval

datatype payload = PItem item | PItems "item list" | PJson jsval

record reply =
  code :: nat
  payload :: payload

datatype error = TypeError

text \<open>
  The destructuring \<open>const { name } = req.body\<close>: a \<open>TypeError\<close> on \<open>undefined\<close> and
  \<open>null\<close>, the property of an object, \<open>undefined\<close> where there is none (a JSON string,
  number, boolean or array has no property \<open>name\<close>).
\<close>

fun destructure :: "string \<Rightarrow> jsval \<Rightarrow> error + jsval" where
  "destructure k Undefined = Inl TypeError"
| "destructure k Null = Inl TypeError"
| "destructure k (Obj kvs) = Inr (case map_of kvs k of None \<Rightarrow> Undefined | Some v \<Rightarrow> v)"
| "destructure k v = Inr Undefined"

definition not_found :: "string \<Rightarrow> reply" where
  "not_found i =
     \<lparr>code = 404, payload = PJson (Obj [(''message'', Str (''Item '' @ i @ '' not found''))])\<rparr>"

text \<open>
  Every handler takes the string \<open>uuid\<close> that the next call of \<open>uuidv4()\<close> returns (only
  \<open>addItem\<close> reaches that call) and returns the reply it sends with the new state, or the
  error it throws. \<open>reply.send\<close> without \<open>reply.code\<close> answers 200. The test \<open>!item\<close>
  of \<open>getItem\<close> and \<open>updateItem\<close> is the case split on the service result: an item is
  truthy and is sent, \<open>undefined\<close> and \<open>null\<close> are falsy and give the 404 reply.
\<close>

type_synonym handler = "string \<Rightarrow> request \<Rightarrow> world \<Rightarrow> error + reply \<times> world"

definition getItems :: handler where
  "getItems uuid req w =
     Inr (\<lparr>code = 200, payload = PItems (getAll (items w))\<rparr>,
          w\<lparr>svc_calls := svc_calls w @ [CallGetAll]\<rparr>)"

definition getItem :: handler where
  "getItem uuid req w =
     (let i = params_id req;
          item = findId i (items w);
          w' = w\<lparr>svc_calls := svc_calls w @ [CallFindId i]\<rparr>
      in case item of
           Found x \<Rightarrow> Inr (\<lparr>code = 200, payload = PItem x\<rparr>, w')
         | _ \<Rightarrow> Inr (not_found i, w'))"

definition addItem :: handler where
  "addItem uuid req w =
     (case destructure ''name'' (body req) of
        Inl e \<Rightarrow> Inl e
      | Inr name \<Rightarrow>
          (let (item, items') = add uuid name (items w)
           in Inr (\<lparr>code = 201, payload = PItem item\<rparr>,
                   \<lparr>items = items', svc_calls = svc_calls w @ [CallAdd name]\<rparr>)))"

definition deleteItem :: handler where
  "deleteItem uuid req w =
     (let i = params_id req;
          (deleted, items') = remove_item i (items w);
          w' = \<lparr>items = items', svc_calls = svc_calls w @ [CallRemove i]\<rparr>
      in if \<not> truthy deleted then Inr (not_found i, w')
         else Inr (\<lparr>code = 200,
                    payload = PJson (Obj [(''message'',
                                Str (''Item '' @ i @ '' has been removed''))])\<rparr>, w'))"

definition updateItem :: handler where
  "updateItem uuid req w =
     (let i = params_id req
      in case destructure ''name'' (body req) of
           Inl e \<Rightarrow> Inl e
         | Inr name \<Rightarrow>
             (let (updated, items') = update i name (items w);
                  w' = \<lparr>items = items', svc_calls = svc_calls w @ [CallUpdate i name]\<rparr>
              in case updated of
                   Found x \<Rightarrow> Inr (\<lparr>code = 200, payload = PItem x\<rparr>, w')
                 | _ \<Rightarrow> Inr (not_found i, w')))"

section \<open>The route table (routes/itemsHandler.js)\<close>

datatype http_method = GET | POST | PUT | DELETE

datatype segment = Lit string | Param string

record route =
  r_method :: http_method
  r_url :: "segment list"
  r_schema :: schema
  r_handler :: handler

definition itemRoutes :: "route list" where
  "itemRoutes =
     [\<lparr>r_method = GET, r_url = [Lit ''items''],
       r_schema = getItemsSchema, r_handler = getItems\<rparr>,
      \<lparr>r_method = GET, r_url = [Lit ''items'', Param ''id''],
       r_schema = getItemSchema, r_handler = getItem\<rparr>,
      \<lparr>r_method = POST, r_url = [Lit ''items''],
       r_schema = addItemSchema, r_handler = addItem\<rparr>,
      \<lparr>r_method = DELETE, r_url = [Lit ''items'', Param ''id''],
       r_schema = deleteItemSchema, r_handler = deleteItem\<rparr>,
      \<lparr>r_method = PUT, r_url = [Lit ''items'', Param ''id''],
       r_schema = updateItemSchema, r_handler = updateItem\<rparr>]"

section \<open>Validation and dispatch\<close>

datatype violation = MissingRequired string | WrongType string jstype

fun has_type :: "jsval \<Rightarrow> jstype \<Rightarrow> bool" where
  "has_type (Str s) TString = True"
| "has_type (Obj kvs) TObject = True"
| "has_type (Arr vs) TArray = True"
| "has_type v t = False"

text \<open>
  Modelled from the spec: the validator of the hosting framework, which is not part of
  the sources. \<open>validate payload schema\<close> is the list of violations, empty for \<open>ok\<close>;
  a violation names the offending field and the expectation violated, a missing required
  field or a wrong type. A payload of the wrong type is reported under the empty field
  name.
\<close>

definition validate :: "jsval \<Rightarrow> body_schema \<Rightarrow> violation list" where
  "validate p sch =
     (case p of
        Obj kvs \<Rightarrow>
          (if bs_type sch = TObject
           then [MissingRequired f. f \<leftarrow> bs_required sch, map_of kvs f = None]
              @ [WrongType f t. (f, t) \<leftarrow> bs_properties sch, v \<leftarrow> (case map_of kvs f of None \<Rightarrow> [] | Some v \<Rightarrow> [v]),
                 \<not> has_type v t]
           else [WrongType [] (bs_type sch)])
      | _ \<Rightarrow> (if has_type p (bs_type sch) then [] else [WrongType [] (bs_type sch)]))"

text \<open>An incoming request: method, path segments, parsed body.\<close>

record http_request =
  meth :: http_method
  path :: "string list"
  http_body :: jsval

datatype outcome =
    NoRoute
  | ClientError "violation list"
  | ServerError error
  | Sent reply

fun statusCode :: "outcome \<Rightarrow> nat" where
  "statusCode NoRoute = 404"
| "statusCode (ClientError vs) = 400"
| "statusCode (ServerError e) = 500"
| "statusCode (Sent r) = code r"

text \<open>
  A path pattern against the segments of a path: the value bound to the placeholder, the
  empty string when the pattern has none.
\<close>

fun match_url :: "segment list \<Rightarrow> string list \<Rightarrow> string option" where
  "match_url [] [] = Some []"
| "match_url (Lit l # ps) (s # ss) = (if l = s then match_url ps ss else None)"
| "match_url (Param n # ps) (s # ss) = (case match_url ps ss of None \<Rightarrow> None | Some _ \<Rightarrow> Some s)"
| "match_url ps ss = None"

fun find_route :: "http_method \<Rightarrow> string list \<Rightarrow> route list \<Rightarrow> (route \<times> string) option" where
  "find_route m p [] = None"
| "find_route m p (r # rs) =
     (if r_method r = m
      then (case match_url (r_url r) p of
              Some i \<Rightarrow> Some (r, i)
            | None \<Rightarrow> find_route m p rs)
      else find_route m p rs)"

definition invoke :: "route \<Rightarrow> string \<Rightarrow> request \<Rightarrow> world \<Rightarrow> outcome \<times> world" where
  "invoke r uuid req w =
     (case r_handler r uuid req w of
        Inl e \<Rightarrow> (ServerError e, w)
      | Inr (rep, w') \<Rightarrow> (Sent rep, w'))"

text \<open>
  Modelled from the spec: the dispatch algorithm of the hosting framework, which is not
  part of the sources. Match method and path; extract the id when the pattern has a
  placeholder; validate the body against the input schema of the route, skipping the step
  when the route declares none; on a violation produce the 400 outcome carrying the
  violation list without entering the handler; otherwise run the handler. A fault thrown
  by the handler becomes the server-error outcome and leaves the state as it was.
\<close>

definition dispatch :: "string \<Rightarrow> http_request \<Rightarrow> world \<Rightarrow> outcome \<times> world" where
  "dispatch uuid rq w =
     (case find_route (meth rq) (path rq) itemRoutes of
        None \<Rightarrow> (NoRoute, w)
      | Some (r, i) \<Rightarrow>
          (let req = \<lparr>params_id = i, body = http_body rq\<rparr>
           in case schema_body (r_schema r) of
                None \<Rightarrow> invoke r uuid req w
              | Some bs \<Rightarrow>
                  (case validate (http_body rq) bs of
                     [] \<Rightarrow> invoke r uuid req w
                   | v # vs \<Rightarrow> (ClientError (v # vs), w))))"

section \<open>The id generator\<close>



section \<open>Specification vocabulary\<close>

text \<open>
  \<open>first_at i xs k\<close>: position \<open>k\<close> holds the first item of \<open>xs\<close> whose id is \<open>i\<close>,
  the one that \<open>find\<close> and \<open>findIndex\<close> locate.
\<close>

definition first_at :: "string \<Rightarrow> item list \<Rightarrow> nat \<Rightarrow> bool" where
  "first_at i xs k \<longleftrightarrow>
     k < length xs \<and> item_id (xs ! k) = i \<and> (\<forall>j<k. item_id (xs ! j) \<noteq> i)"

section \<open>Facts about the array primitives\<close>

lemma findIndex_ge: "- 1 \<le> findIndex P xs"
  by (induction xs) (auto simp: Let_def)

lemma findIndex_none: "findIndex P xs = - 1 \<longleftrightarrow> (\<forall>x\<in>set xs. \<not> P x)"
proof (induction xs)
  case Nil
  then show ?case by simp
next
  case (Cons x xs)
  have "findIndex P xs + 1 \<noteq> - 1"
    using findIndex_ge [of P xs] by arith
  with Cons show ?case by (auto simp: Let_def)
qed

lemma findIndex_found:
  assumes "findIndex P xs \<noteq> - 1"
  shows "nat (findIndex P xs) < length xs \<and> P (xs ! nat (findIndex P xs))
         \<and> (\<forall>j < nat (findIndex P xs). \<not> P (xs ! j))"
  using assms
proof (induction xs)
  case Nil
  then show ?case by simp
next
  case (Cons x xs)
  show ?case
  proof (cases "P x")
    case True
    then show ?thesis by simp
  next
    case False
    with Cons.prems have r: "findIndex P xs \<noteq> - 1"
      by (auto simp: Let_def split: if_splits)
    have ge: "0 \<le> findIndex P xs"
      using r findIndex_ge [of P xs] by arith
    have eq: "nat (findIndex P (x # xs)) = Suc (nat (findIndex P xs))"
      using False r ge by (simp add: Let_def nat_add_distrib)
    from Cons.IH [OF r] show ?thesis
      unfolding eq using False by (auto simp: less_Suc_eq_0_disj)
  qed
qed

lemma splice_arr_one:
  "k < length xs \<Longrightarrow> splice_arr k (Suc 0) xs = ([xs ! k], take k xs @ drop (Suc k) xs)"
  by (simp add: splice_arr_def take_Suc_conv_app_nth [of 0] Cons_nth_drop_Suc [symmetric])

lemma first_at_exists:
  assumes "\<exists>x\<in>set xs. item_id x = i"
  shows "findIndex (\<lambda>item. item_id item = i) xs \<noteq> - 1
         \<and> first_at i xs (nat (findIndex (\<lambda>item. item_id item = i) xs))"
proof -
  have ne: "findIndex (\<lambda>item. item_id item = i) xs \<noteq> - 1"
    using assms by (simp add: findIndex_none)
  from findIndex_found [OF ne] show ?thesis
    using ne by (simp add: first_at_def)
qed

lemma remove_item_absent:
  "\<not> (\<exists>x\<in>set xs. item_id x = i) \<Longrightarrow> remove_item i xs = (JsNull, xs)"
  by (simp add: remove_item_def findIndex_none)

lemma remove_item_present:
  assumes "\<exists>x\<in>set xs. item_id x = i"
  shows "\<exists>k. first_at i xs k
             \<and> remove_item i xs = (Found (xs ! k), take k xs @ drop (Suc k) xs)"
proof -
  let ?k = "nat (findIndex (\<lambda>item. item_id item = i) xs)"
  from first_at_exists [OF assms]
  have ne: "findIndex (\<lambda>item. item_id item = i) xs \<noteq> - 1" and fa: "first_at i xs ?k"
    by simp_all
  from fa have "?k < length xs" by (simp add: first_at_def)
  then have "remove_item i xs = (Found (xs ! ?k), take ?k xs @ drop (Suc ?k) xs)"
    using ne by (simp add: remove_item_def Let_def splice_arr_one)
  with fa show ?thesis by blast
qed

lemma update_absent:
  "\<not> (\<exists>x\<in>set xs. item_id x = i) \<Longrightarrow> update i name xs = (JsNull, xs)"
  by (simp add: update_def findIndex_none)

lemma update_present:
  assumes "\<exists>x\<in>set xs. item_id x = i"
  shows "\<exists>k. first_at i xs k
             \<and> (\<forall>name. update i name xs =
                   (Found \<lparr>item_id = i, item_name = name\<rparr>,
                    xs[k := \<lparr>item_id = i, item_name = name\<rparr>]))"
proof -
  let ?k = "nat (findIndex (\<lambda>item. item_id item = i) xs)"
  from first_at_exists [OF assms]
  have ne: "findIndex (\<lambda>item. item_id item = i) xs \<noteq> - 1" and fa: "first_at i xs ?k"
    by simp_all
  from fa have lt: "?k < length xs" and idk: "item_id (xs ! ?k) = i"
    by (simp_all add: first_at_def)
  have upd: "(xs ! ?k)\<lparr>item_name := name\<rparr> = \<lparr>item_id = i, item_name = name\<rparr>" for name
    using idk by (cases "xs ! ?k") simp
  have "update i name xs =
          (Found \<lparr>item_id = i, item_name = name\<rparr>, xs[?k := \<lparr>item_id = i, item_name = name\<rparr>])"
    for name
    using ne lt by (simp add: update_def Let_def upd)
  with fa show ?thesis by blast
qed

lemma findId_absent:
  assumes "\<not> (\<exists>x\<in>set xs. item_id x = i)"
  shows "findId i xs = JsUndefined"
proof -
  have "List.find (\<lambda>item. item_id item = i) xs = None"
    using assms by (simp add: find_None_iff)
  then show ?thesis by (simp add: findId_def)
qed

lemma findId_present:
  assumes "\<exists>x\<in>set xs. item_id x = i"
  shows "\<exists>k. first_at i xs k \<and> findId i xs = Found (xs ! k)"
proof -
  from assms obtain y where y: "List.find (\<lambda>item. item_id item = i) xs = Some y"
    by (cases "List.find (\<lambda>item. item_id item = i) xs") (auto simp: find_None_iff)
  then obtain k where "k < length xs" "item_id (xs ! k) = i" "y = xs ! k"
      "\<forall>j<k. item_id (xs ! j) \<noteq> i"
    by (auto simp: find_Some_iff)
  then have "first_at i xs k \<and> findId i xs = Found (xs ! k)"
    using y by (simp add: first_at_def findId_def)
  then show ?thesis by blast
qed

lemma distinct_ids_removed:
  assumes "distinct (map item_id xs)" and "k < length xs"
  shows "\<forall>x\<in>set (take k xs @ drop (Suc k) xs). item_id x \<noteq> item_id (xs ! k)"
proof -
  have "xs = take k xs @ xs ! k # drop (Suc k) xs"
    using assms(2) by (simp add: id_take_nth_drop [symmetric])
  then have "distinct (map item_id (take k xs @ xs ! k # drop (Suc k) xs))"
    using assms(1) by simp
  then have "item_id (xs ! k) \<notin> item_id ` set (take k xs)"
    and "item_id (xs ! k) \<notin> item_id ` set (drop (Suc k) xs)"
    by simp_all
  then show ?thesis by (auto simp: image_iff)
qed




lemma route_get_item:
  "find_route GET [''items'', i] itemRoutes =
     Some (\<lparr>r_method = GET, r_url = [Lit ''items'', Param ''id''],
            r_schema = getItemSchema, r_handler = getItem\<rparr>, i)"
  by (simp add: itemRoutes_def)

lemma route_delete_item:
  "find_route DELETE [''items'', i] itemRoutes =
     Some (\<lparr>r_method = DELETE, r_url = [Lit ''items'', Param ''id''],
            r_schema = deleteItemSchema, r_handler = deleteItem\<rparr>, i)"
  by (simp add: itemRoutes_def)

lemma dispatch_get_item:
  "getItem uuid \<lparr>params_id = i, body = b\<rparr> w = Inr (rep, w') \<Longrightarrow>
   dispatch uuid \<lparr>meth = GET, path = [''items'', i], http_body = b\<rparr> w = (Sent rep, w')"
  by (simp add: dispatch_def route_get_item getItemSchema_def invoke_def)

lemma dispatch_delete_item:
  "deleteItem uuid \<lparr>params_id = i, body = b\<rparr> w = Inr (rep, w') \<Longrightarrow>
   dispatch uuid \<lparr>meth = DELETE, path = [''items'', i], http_body = b\<rparr> w = (Sent rep, w')"
  by (simp add: dispatch_def route_delete_item deleteItemSchema_def invoke_def)

section \<open>The service operations\<close>



text \<open>
  Claim C3. \<open>update\<close> on an id that no item has returns \<open>null\<close> and the array as it was.
  On an id that some item has, it returns the record with that id and the new name; the
  array keeps its length, the first item with the id keeps its id and position and takes
  the new name, and every other position is as before.
\<close>

theorem update_replaces_name_in_place:
  "(\<not> (\<exists>x\<in>set xs. item_id x = i) \<longrightarrow> update i name xs = (JsNull, xs))
   \<and> ((\<exists>x\<in>set xs. item_id x = i) \<longrightarrow>
        (\<exists>k. first_at i xs k
           \<and> fst (update i name xs) = Found \<lparr>item_id = i, item_name = name\<rparr>
           \<and> length (snd (update i name xs)) = length xs
           \<and> snd (update i name xs) ! k = \<lparr>item_id = item_id (xs ! k), item_name = name\<rparr>
           \<and> (\<forall>j<length xs. j \<noteq> k \<longrightarrow> snd (update i name xs) ! j = xs ! j)))"
proof (intro conjI impI)
  assume "\<not> (\<exists>x\<in>set xs. item_id x = i)"
  then show "update i name xs = (JsNull, xs)" by (rule update_absent)
next
  assume "\<exists>x\<in>set xs. item_id x = i"
  from update_present [OF this] obtain k where fa: "first_at i xs k"
    and u: "update i name xs =
              (Found \<lparr>item_id = i, item_name = name\<rparr>, xs[k := \<lparr>item_id = i, item_name = name\<rparr>])"
    by blast
  from fa have "k < length xs" and "item_id (xs ! k) = i"
    by (simp_all add: first_at_def)
  then have "fst (update i name xs) = Found \<lparr>item_id = i, item_name = name\<rparr>
      \<and> length (snd (update i name xs)) = length xs
      \<and> snd (update i name xs) ! k = \<lparr>item_id = item_id (xs ! k), item_name = name\<rparr>
      \<and> (\<forall>j<length xs. j \<noteq> k \<longrightarrow> snd (update i name xs) ! j = xs ! j)"
    by (simp add: u)
  with fa show "\<exists>k. first_at i xs k
           \<and> fst (update i name xs) = Found \<lparr>item_id = i, item_name = name\<rparr>
           \<and> length (snd (update i name xs)) = length xs
           \<and> snd (update i name xs) ! k = \<lparr>item_id = item_id (xs ! k), item_name = name\<rparr>
           \<and> (\<forall>j<length xs. j \<noteq> k \<longrightarrow> snd (update i name xs) ! j = xs ! j)"
    by blast
qed

theorem update_replaces_name_in_place_witness:
  "\<not> (\<exists>x\<in>set [\<lparr>item_id = ''1'', item_name = Str ''Item One''\<rparr>,
                 \<lparr>item_id = ''2'', item_name = Str ''Item Two''\<rparr>]. item_id x = ''999'')
   \<and> update ''999'' (Str ''x'')
        [\<lparr>item_id = ''1'', item_name = Str ''Item One''\<rparr>,
         \<lparr>item_id = ''2'', item_name = Str ''Item Two''\<rparr>] =
       (JsNull, [\<lparr>item_id = ''1'', item_name = Str ''Item One''\<rparr>,
                 \<lparr>item_id = ''2'', item_name = Str ''Item Two''\<rparr>])
   \<and> (\<exists>x\<in>set [\<lparr>item_id = ''1'', item_name = Str ''Item One''\<rparr>,
                \<lparr>item_id = ''2'', item_name = Str ''Item Two''\<rparr>]. item_id x = ''2'')
   \<and> first_at ''2'' [\<lparr>item_id = ''1'', item_name = Str ''Item One''\<rparr>,
                     \<lparr>item_id = ''2'', item_name = Str ''Item Two''\<rparr>] 1
   \<and> update ''2'' (Str ''Updated Item Two'')
        [\<lparr>item_id = ''1'', item_name = Str ''Item One''\<rparr>,
         \<lparr>item_id = ''2'', item_name = Str ''Item Two''\<rparr>] =
       (Found \<lparr>item_id = ''2'', item_name = Str ''Updated Item Two''\<rparr>,
        [\<lparr>item_id = ''1'', item_name = Str ''Item One''\<rparr>,
         \<lparr>item_id = ''2'', item_name = Str ''Updated Item Two''\<rparr>])"
  using update_replaces_name_in_place [of "[\<lparr>item_id = ''1'', item_name = Str ''Item One''\<rparr>,
         \<lparr>item_id = ''2'', item_name = Str ''Item Two''\<rparr>]" "''999''" "Str ''x''"]
    update_replaces_name_in_place [of "[\<lparr>item_id = ''1'', item_name = Str ''Item One''\<rparr>,
         \<lparr>item_id = ''2'', item_name = Str ''Item Two''\<rparr>]" "''2''" "Str ''Updated Item Two''"]
  by (simp add: update_def Let_def first_at_def less_Suc_eq_0_disj)

text \<open>
  Claim C4, as amended. \<open>remove\<close> on an id that no item has returns \<open>null\<close> and the array
  as it was. On an id that some item has, it returns the first item with that id and
  leaves the array without that one position: one element shorter, the others in their
  order. Where the ids of the array are pairwise distinct, \<open>findId\<close> on the same id then
  finds nothing.
\<close>

theorem remove_deletes_first_match:
  "(\<not> (\<exists>x\<in>set xs. item_id x = i) \<longrightarrow> remove_item i xs = (JsNull, xs))
   \<and> ((\<exists>x\<in>set xs. item_id x = i) \<longrightarrow>
        (\<exists>k. first_at i xs k
           \<and> remove_item i xs = (Found (xs ! k), take k xs @ drop (Suc k) xs)
           \<and> Suc (length (snd (remove_item i xs))) = length xs
           \<and> (distinct (map item_id xs) \<longrightarrow>
                findId i (snd (remove_item i xs)) = JsUndefined)))"
proof (intro conjI impI)
  assume "\<not> (\<exists>x\<in>set xs. item_id x = i)"
  then show "remove_item i xs = (JsNull, xs)" by (rule remove_item_absent)
next
  assume "\<exists>x\<in>set xs. item_id x = i"
  from remove_item_present [OF this] obtain k where fa: "first_at i xs k"
    and r: "remove_item i xs = (Found (xs ! k), take k xs @ drop (Suc k) xs)"
    by blast
  from fa have lt: "k < length xs" and idk: "item_id (xs ! k) = i"
    by (simp_all add: first_at_def)
  have len: "Suc (length (snd (remove_item i xs))) = length xs"
    using lt by (simp add: r)
  have gone: "findId i (snd (remove_item i xs)) = JsUndefined" if "distinct (map item_id xs)"
  proof -
    from distinct_ids_removed [OF that lt]
    have "\<not> (\<exists>x\<in>set (take k xs @ drop (Suc k) xs). item_id x = i)"
      using idk by auto
    then show ?thesis by (simp add: r findId_absent)
  qed
  from fa r len gone
  show "\<exists>k. first_at i xs k
           \<and> remove_item i xs = (Found (xs ! k), take k xs @ drop (Suc k) xs)
           \<and> Suc (length (snd (remove_item i xs))) = length xs
           \<and> (distinct (map item_id xs) \<longrightarrow>
                findId i (snd (remove_item i xs)) = JsUndefined)"
    by blast
qed

theorem remove_deletes_first_match_witness:
  "\<not> (\<exists>x\<in>set [\<lparr>item_id = ''1'', item_name = Str ''Item One''\<rparr>,
                 \<lparr>item_id = ''2'', item_name = Str ''Item Two''\<rparr>,
                 \<lparr>item_id = ''3'', item_name = Str ''Item Three''\<rparr>]. item_id x = ''9'')
   \<and> remove_item ''9''
        [\<lparr>item_id = ''1'', item_name = Str ''Item One''\<rparr>,
         \<lparr>item_id = ''2'', item_name = Str ''Item Two''\<rparr>,
         \<lparr>item_id = ''3'', item_name = Str ''Item Three''\<rparr>] =
       (JsNull, [\<lparr>item_id = ''1'', item_name = Str ''Item One''\<rparr>,
                 \<lparr>item_id = ''2'', item_name = Str ''Item Two''\<rparr>,
                 \<lparr>item_id = ''3'', item_name = Str ''Item Three''\<rparr>])
   \<and> (\<exists>x\<in>set [\<lparr>item_id = ''1'', item_name = Str ''Item One''\<rparr>,
                \<lparr>item_id = ''2'', item_name = Str ''Item Two''\<rparr>,
                \<lparr>item_id = ''3'', item_name = Str ''Item Three''\<rparr>]. item_id x = ''2'')
   \<and> first_at ''2'' [\<lparr>item_id = ''1'', item_name = Str ''Item One''\<rparr>,
                     \<lparr>item_id = ''2'', item_name = Str ''Item Two''\<rparr>,
                     \<lparr>item_id = ''3'', item_name = Str ''Item Three''\<rparr>] 1
   \<and> distinct (map item_id [\<lparr>item_id = ''1'', item_name = Str ''Item One''\<rparr>,
                             \<lparr>item_id = ''2'', item_name = Str ''Item Two''\<rparr>,
                             \<lparr>item_id = ''3'', item_name = Str ''Item Three''\<rparr>])
   \<and> remove_item ''2''
        [\<lparr>item_id = ''1'', item_name = Str ''Item One''\<rparr>,
         \<lparr>item_id = ''2'', item_name = Str ''Item Two''\<rparr>,
         \<lparr>item_id = ''3'', item_name = Str ''Item Three''\<rparr>] =
       (Found \<lparr>item_id = ''2'', item_name = Str ''Item Two''\<rparr>,
        [\<lparr>item_id = ''1'', item_name = Str ''Item One''\<rparr>,
         \<lparr>item_id = ''3'', item_name = Str ''Item Three''\<rparr>])
   \<and> findId ''2'' (snd (remove_item ''2''
        [\<lparr>item_id = ''1'', item_name = Str ''Item One''\<rparr>,
         \<lparr>item_id = ''2'', item_name = Str ''Item Two''\<rparr>,
         \<lparr>item_id = ''3'', item_name = Str ''Item Three''\<rparr>])) = JsUndefined"
  using remove_deletes_first_match [of "[\<lparr>item_id = ''1'', item_name = Str ''Item One''\<rparr>,
         \<lparr>item_id = ''2'', item_name = Str ''Item Two''\<rparr>,
         \<lparr>item_id = ''3'', item_name = Str ''Item Three''\<rparr>]" "''9''"]
    remove_deletes_first_match [of "[\<lparr>item_id = ''1'', item_name = Str ''Item One''\<rparr>,
         \<lparr>item_id = ''2'', item_name = Str ''Item Two''\<rparr>,
         \<lparr>item_id = ''3'', item_name = Str ''Item Three''\<rparr>]" "''2''"]
  by (simp add: remove_item_def splice_arr_def findId_def Let_def first_at_def less_Suc_eq_0_disj)

text \<open>
  Claim C4, as stated for every array, fails where two items share an id: \<open>remove\<close>
  deletes the first of them and \<open>findId\<close> then returns the second.
\<close>

theorem remove_then_find_duplicate_id:
  "findId ''1'' (snd (remove_item ''1''
       [\<lparr>item_id = ''1'', item_name = Str ''a''\<rparr>,
        \<lparr>item_id = ''1'', item_name = Str ''b''\<rparr>]))
   = Found \<lparr>item_id = ''1'', item_name = Str ''b''\<rparr>"
  by (simp add: remove_item_def splice_arr_def findId_def Let_def)

text \<open>
  Claim C8. In an array whose ids are pairwise distinct, once \<open>remove\<close> has returned an
  item for an id, a second \<open>remove\<close> of the same id returns \<open>null\<close> and the array it was
  given.
\<close>

theorem remove_twice_idempotent:
  assumes "distinct (map item_id xs)"
    and "remove_item i xs = (Found x, xs')"
  shows "remove_item i xs' = (JsNull, xs')"
proof -
  have ex: "\<exists>y\<in>set xs. item_id y = i"
  proof (rule ccontr)
    assume "\<not> (\<exists>y\<in>set xs. item_id y = i)"
    from remove_item_absent [OF this] assms(2) show False by simp
  qed
  from remove_item_present [OF ex] obtain k where fa: "first_at i xs k"
    and r: "remove_item i xs = (Found (xs ! k), take k xs @ drop (Suc k) xs)"
    by blast
  from fa have lt: "k < length xs" and idk: "item_id (xs ! k) = i"
    by (simp_all add: first_at_def)
  from r assms(2) have xs': "xs' = take k xs @ drop (Suc k) xs" by simp
  from distinct_ids_removed [OF assms(1) lt]
  have "\<not> (\<exists>y\<in>set xs'. item_id y = i)"
    using idk xs' by auto
  then show ?thesis by (rule remove_item_absent)
qed

theorem remove_twice_idempotent_witness:
  "distinct (map item_id [\<lparr>item_id = ''1'', item_name = Str ''Item One''\<rparr>,
                           \<lparr>item_id = ''2'', item_name = Str ''Item Two''\<rparr>])
   \<and> remove_item ''1'' [\<lparr>item_id = ''1'', item_name = Str ''Item One''\<rparr>,
                        \<lparr>item_id = ''2'', item_name = Str ''Item Two''\<rparr>] =
       (Found \<lparr>item_id = ''1'', item_name = Str ''Item One''\<rparr>,
        [\<lparr>item_id = ''2'', item_name = Str ''Item Two''\<rparr>])
   \<and> remove_item ''1'' [\<lparr>item_id = ''2'', item_name = Str ''Item Two''\<rparr>] =
       (JsNull, [\<lparr>item_id = ''2'', item_name = Str ''Item Two''\<rparr>])"
proof -
  have d: "distinct (map item_id [\<lparr>item_id = ''1'', item_name = Str ''Item One''\<rparr>,
                                   \<lparr>item_id = ''2'', item_name = Str ''Item Two''\<rparr>])"
    by simp
  have r: "remove_item ''1'' [\<lparr>item_id = ''1'', item_name = Str ''Item One''\<rparr>,
                              \<lparr>item_id = ''2'', item_name = Str ''Item Two''\<rparr>] =
       (Found \<lparr>item_id = ''1'', item_name = Str ''Item One''\<rparr>,
        [\<lparr>item_id = ''2'', item_name = Str ''Item Two''\<rparr>])"
    by (simp add: remove_item_def splice_arr_def Let_def)
  from d r remove_twice_idempotent [OF d r] show ?thesis by blast
qed



section \<open>The controllers and the routes\<close>

text \<open>
  Claim C7. When no item of the array has the id, \<open>findId\<close> returns \<open>undefined\<close>, a value
  and not an error, and the request \<open>GET /items/{id}\<close>, dispatched through the route
  table to \<open>getItem\<close>, is answered 404 with the body \<open>{message: "Item {id} not found"}\<close>.
  When some item has it, the request is answered 200 with the item that \<open>findId\<close>
  returned, the first one with the id. The array is not touched on either branch.
\<close>

theorem getItem_found_or_404:
  "(\<not> (\<exists>x\<in>set (items w). item_id x = i) \<longrightarrow>
       findId i (items w) = JsUndefined
     \<and> getItem uuid \<lparr>params_id = i, body = b\<rparr> w =
         Inr (\<lparr>code = 404,
               payload = PJson (Obj [(''message'', Str (''Item '' @ i @ '' not found''))])\<rparr>,
              w\<lparr>svc_calls := svc_calls w @ [CallFindId i]\<rparr>)
     \<and> dispatch uuid \<lparr>meth = GET, path = [''items'', i], http_body = b\<rparr> w =
         (Sent \<lparr>code = 404,
                payload = PJson (Obj [(''message'', Str (''Item '' @ i @ '' not found''))])\<rparr>,
          w\<lparr>svc_calls := svc_calls w @ [CallFindId i]\<rparr>))
   \<and> ((\<exists>x\<in>set (items w). item_id x = i) \<longrightarrow>
        (\<exists>k. first_at i (items w) k
           \<and> findId i (items w) = Found (items w ! k)
           \<and> getItem uuid \<lparr>params_id = i, body = b\<rparr> w =
               Inr (\<lparr>code = 200, payload = PItem (items w ! k)\<rparr>,
                    w\<lparr>svc_calls := svc_calls w @ [CallFindId i]\<rparr>)
           \<and> dispatch uuid \<lparr>meth = GET, path = [''items'', i], http_body = b\<rparr> w =
               (Sent \<lparr>code = 200, payload = PItem (items w ! k)\<rparr>,
                w\<lparr>svc_calls := svc_calls w @ [CallFindId i]\<rparr>)))"
proof (intro conjI impI)
  assume a: "\<not> (\<exists>x\<in>set (items w). item_id x = i)"
  from findId_absent [OF a] show "findId i (items w) = JsUndefined" .
  from findId_absent [OF a]
  show h: "getItem uuid \<lparr>params_id = i, body = b\<rparr> w =
         Inr (\<lparr>code = 404,
               payload = PJson (Obj [(''message'', Str (''Item '' @ i @ '' not found''))])\<rparr>,
              w\<lparr>svc_calls := svc_calls w @ [CallFindId i]\<rparr>)"
    by (simp add: getItem_def not_found_def)
  from dispatch_get_item [OF h]
  show "dispatch uuid \<lparr>meth = GET, path = [''items'', i], http_body = b\<rparr> w =
         (Sent \<lparr>code = 404,
                payload = PJson (Obj [(''message'', Str (''Item '' @ i @ '' not found''))])\<rparr>,
          w\<lparr>svc_calls := svc_calls w @ [CallFindId i]\<rparr>)" .
next
  assume "\<exists>x\<in>set (items w). item_id x = i"
  from findId_present [OF this] obtain k where fa: "first_at i (items w) k"
    and f: "findId i (items w) = Found (items w ! k)"
    by blast
  from f have h: "getItem uuid \<lparr>params_id = i, body = b\<rparr> w =
               Inr (\<lparr>code = 200, payload = PItem (items w ! k)\<rparr>,
                    w\<lparr>svc_calls := svc_calls w @ [CallFindId i]\<rparr>)"
    by (simp add: getItem_def)
  from fa f h dispatch_get_item [OF h]
  show "\<exists>k. first_at i (items w) k
           \<and> findId i (items w) = Found (items w ! k)
           \<and> getItem uuid \<lparr>params_id = i, body = b\<rparr> w =
               Inr (\<lparr>code = 200, payload = PItem (items w ! k)\<rparr>,
                    w\<lparr>svc_calls := svc_calls w @ [CallFindId i]\<rparr>)
           \<and> dispatch uuid \<lparr>meth = GET, path = [''items'', i], http_body = b\<rparr> w =
               (Sent \<lparr>code = 200, payload = PItem (items w ! k)\<rparr>,
                w\<lparr>svc_calls := svc_calls w @ [CallFindId i]\<rparr>)"
    by blast
qed

theorem getItem_found_or_404_witness:
  "\<not> (\<exists>x\<in>set (items \<lparr>items = [\<lparr>item_id = ''1'', item_name = Str ''Item One''\<rparr>], svc_calls = []\<rparr>).
         item_id x = ''9'')
   \<and> findId ''9'' [\<lparr>item_id = ''1'', item_name = Str ''Item One''\<rparr>] = JsUndefined
   \<and> getItem [] \<lparr>params_id = ''9'', body = Undefined\<rparr>
        \<lparr>items = [\<lparr>item_id = ''1'', item_name = Str ''Item One''\<rparr>], svc_calls = []\<rparr> =
       Inr (\<lparr>code = 404, payload = PJson (Obj [(''message'', Str ''Item 9 not found'')])\<rparr>,
            \<lparr>items = [\<lparr>item_id = ''1'', item_name = Str ''Item One''\<rparr>],
             svc_calls = [CallFindId ''9'']\<rparr>)
   \<and> dispatch [] \<lparr>meth = GET, path = [''items'', ''9''], http_body = Undefined\<rparr>
        \<lparr>items = [\<lparr>item_id = ''1'', item_name = Str ''Item One''\<rparr>], svc_calls = []\<rparr> =
       (Sent \<lparr>code = 404, payload = PJson (Obj [(''message'', Str ''Item 9 not found'')])\<rparr>,
        \<lparr>items = [\<lparr>item_id = ''1'', item_name = Str ''Item One''\<rparr>],
         svc_calls = [CallFindId ''9'']\<rparr>)
   \<and> (\<exists>x\<in>set (items \<lparr>items = [\<lparr>item_id = ''1'', item_name = Str ''Item One''\<rparr>], svc_calls = []\<rparr>).
         item_id x = ''1'')
   \<and> first_at ''1'' [\<lparr>item_id = ''1'', item_name = Str ''Item One''\<rparr>] 0
   \<and> getItem [] \<lparr>params_id = ''1'', body = Undefined\<rparr>
        \<lparr>items = [\<lparr>item_id = ''1'', item_name = Str ''Item One''\<rparr>], svc_calls = []\<rparr> =
       Inr (\<lparr>code = 200, payload = PItem \<lparr>item_id = ''1'', item_name = Str ''Item One''\<rparr>\<rparr>,
            \<lparr>items = [\<lparr>item_id = ''1'', item_name = Str ''Item One''\<rparr>],
             svc_calls = [CallFindId ''1'']\<rparr>)
   \<and> dispatch [] \<lparr>meth = GET, path = [''items'', ''1''], http_body = Undefined\<rparr>
        \<lparr>items = [\<lparr>item_id = ''1'', item_name = Str ''Item One''\<rparr>], svc_calls = []\<rparr> =
       (Sent \<lparr>code = 200, payload = PItem \<lparr>item_id = ''1'', item_name = Str ''Item One''\<rparr>\<rparr>,
        \<lparr>items = [\<lparr>item_id = ''1'', item_name = Str ''Item One''\<rparr>],
         svc_calls = [CallFindId ''1'']\<rparr>)"
  using getItem_found_or_404 [of "\<lparr>items = [\<lparr>item_id = ''1'', item_name = Str ''Item One''\<rparr>], svc_calls = []\<rparr>"
      "''9''" "[]" Undefined]
    getItem_found_or_404 [of "\<lparr>items = [\<lparr>item_id = ''1'', item_name = Str ''Item One''\<rparr>], svc_calls = []\<rparr>"
      "''1''" "[]" Undefined]
  by (simp add: getItem_def findId_def not_found_def first_at_def Let_def dispatch_def
      itemRoutes_def getItemSchema_def invoke_def)

text \<open>
  Claim C6. The request \<open>DELETE /items/{id}\<close>, dispatched through the route table to
  \<open>deleteItem\<close>, on an id that some item has is answered 200 with the body
  \<open>{message: "Item {id} has been removed"}\<close> and leaves the array without the first item
  that has the id. On an id that no item has it is answered 404 with the body
  \<open>{message: "Item {id} not found"}\<close> and leaves the array as it was.
\<close>

theorem deleteItem_200_or_404:
  "((\<exists>x\<in>set (items w). item_id x = i) \<longrightarrow>
      (\<exists>k. first_at i (items w) k
         \<and> deleteItem uuid \<lparr>params_id = i, body = b\<rparr> w =
             Inr (\<lparr>code = 200,
                   payload = PJson (Obj [(''message'', Str (''Item '' @ i @ '' has been removed''))])\<rparr>,
                  \<lparr>items = take k (items w) @ drop (Suc k) (items w),
                   svc_calls = svc_calls w @ [CallRemove i]\<rparr>)
         \<and> dispatch uuid \<lparr>meth = DELETE, path = [''items'', i], http_body = b\<rparr> w =
             (Sent \<lparr>code = 200,
                    payload = PJson (Obj [(''message'', Str (''Item '' @ i @ '' has been removed''))])\<rparr>,
              \<lparr>items = take k (items w) @ drop (Suc k) (items w),
               svc_calls = svc_calls w @ [CallRemove i]\<rparr>)))
   \<and> (\<not> (\<exists>x\<in>set (items w). item_id x = i) \<longrightarrow>
        deleteItem uuid \<lparr>params_id = i, body = b\<rparr> w =
          Inr (\<lparr>code = 404,
                payload = PJson (Obj [(''message'', Str (''Item '' @ i @ '' not found''))])\<rparr>,
               \<lparr>items = items w, svc_calls = svc_calls w @ [CallRemove i]\<rparr>)
      \<and> dispatch uuid \<lparr>meth = DELETE, path = [''items'', i], http_body = b\<rparr> w =
          (Sent \<lparr>code = 404,
                 payload = PJson (Obj [(''message'', Str (''Item '' @ i @ '' not found''))])\<rparr>,
           \<lparr>items = items w, svc_calls = svc_calls w @ [CallRemove i]\<rparr>))"
proof (intro conjI impI)
  assume "\<exists>x\<in>set (items w). item_id x = i"
  from remove_item_present [OF this] obtain k where fa: "first_at i (items w) k"
    and r: "remove_item i (items w) =
              (Found (items w ! k), take k (items w) @ drop (Suc k) (items w))"
    by blast
  from r have h: "deleteItem uuid \<lparr>params_id = i, body = b\<rparr> w =
             Inr (\<lparr>code = 200,
                   payload = PJson (Obj [(''message'', Str (''Item '' @ i @ '' has been removed''))])\<rparr>,
                  \<lparr>items = take k (items w) @ drop (Suc k) (items w),
                   svc_calls = svc_calls w @ [CallRemove i]\<rparr>)"
    by (simp add: deleteItem_def Let_def)
  from fa h dispatch_delete_item [OF h]
  show "\<exists>k. first_at i (items w) k
         \<and> deleteItem uuid \<lparr>params_id = i, body = b\<rparr> w =
             Inr (\<lparr>code = 200,
                   payload = PJson (Obj [(''message'', Str (''Item '' @ i @ '' has been removed''))])\<rparr>,
                  \<lparr>items = take k (items w) @ drop (Suc k) (items w),
                   svc_calls = svc_calls w @ [CallRemove i]\<rparr>)
         \<and> dispatch uuid \<lparr>meth = DELETE, path = [''items'', i], http_body = b\<rparr> w =
             (Sent \<lparr>code = 200,
                    payload = PJson (Obj [(''message'', Str (''Item '' @ i @ '' has been removed''))])\<rparr>,
              \<lparr>items = take k (items w) @ drop (Suc k) (items w),
               svc_calls = svc_calls w @ [CallRemove i]\<rparr>)"
    by blast
next
  assume "\<not> (\<exists>x\<in>set (items w). item_id x = i)"
  from remove_item_absent [OF this]
  show h: "deleteItem uuid \<lparr>params_id = i, body = b\<rparr> w =
          Inr (\<lparr>code = 404,
                payload = PJson (Obj [(''message'', Str (''Item '' @ i @ '' not found''))])\<rparr>,
               \<lparr>items = items w, svc_calls = svc_calls w @ [CallRemove i]\<rparr>)"
    by (simp add: deleteItem_def Let_def not_found_def)
  from dispatch_delete_item [OF h]
  show "dispatch uuid \<lparr>meth = DELETE, path = [''items'', i], http_body = b\<rparr> w =
          (Sent \<lparr>code = 404,
                 payload = PJson (Obj [(''message'', Str (''Item '' @ i @ '' not found''))])\<rparr>,
           \<lparr>items = items w, svc_calls = svc_calls w @ [CallRemove i]\<rparr>)" .
qed

theorem deleteItem_200_or_404_witness:
  "(\<exists>x\<in>set (items \<lparr>items = [\<lparr>item_id = ''1'', item_name = Str ''Item One''\<rparr>,
                           \<lparr>item_id = ''2'', item_name = Str ''Item Two''\<rparr>], svc_calls = []\<rparr>).
       item_id x = ''2'')
   \<and> first_at ''2'' [\<lparr>item_id = ''1'', item_name = Str ''Item One''\<rparr>,
                     \<lparr>item_id = ''2'', item_name = Str ''Item Two''\<rparr>] 1
   \<and> deleteItem [] \<lparr>params_id = ''2'', body = Undefined\<rparr>
        \<lparr>items = [\<lparr>item_id = ''1'', item_name = Str ''Item One''\<rparr>,
                  \<lparr>item_id = ''2'', item_name = Str ''Item Two''\<rparr>], svc_calls = []\<rparr> =
       Inr (\<lparr>code = 200, payload = PJson (Obj [(''message'', Str ''Item 2 has been removed'')])\<rparr>,
            \<lparr>items = [\<lparr>item_id = ''1'', item_name = Str ''Item One''\<rparr>],
             svc_calls = [CallRemove ''2'']\<rparr>)
   \<and> dispatch [] \<lparr>meth = DELETE, path = [''items'', ''2''], http_body = Undefined\<rparr>
        \<lparr>items = [\<lparr>item_id = ''1'', item_name = Str ''Item One''\<rparr>,
                  \<lparr>item_id = ''2'', item_name = Str ''Item Two''\<rparr>], svc_calls = []\<rparr> =
       (Sent \<lparr>code = 200, payload = PJson (Obj [(''message'', Str ''Item 2 has been removed'')])\<rparr>,
        \<lparr>items = [\<lparr>item_id = ''1'', item_name = Str ''Item One''\<rparr>],
         svc_calls = [CallRemove ''2'']\<rparr>)
   \<and> \<not> (\<exists>x\<in>set (items \<lparr>items = [\<lparr>item_id = ''1'', item_name = Str ''Item One''\<rparr>,
                           \<lparr>item_id = ''2'', item_name = Str ''Item Two''\<rparr>], svc_calls = []\<rparr>).
       item_id x = ''9'')
   \<and> deleteItem [] \<lparr>params_id = ''9'', body = Undefined\<rparr>
        \<lparr>items = [\<lparr>item_id = ''1'', item_name = Str ''Item One''\<rparr>,
                  \<lparr>item_id = ''2'', item_name = Str ''Item Two''\<rparr>], svc_calls = []\<rparr> =
       Inr (\<lparr>code = 404, payload = PJson (Obj [(''message'', Str ''Item 9 not found'')])\<rparr>,
            \<lparr>items = [\<lparr>item_id = ''1'', item_name = Str ''Item One''\<rparr>,
                      \<lparr>item_id = ''2'', item_name = Str ''Item Two''\<rparr>],
             svc_calls = [CallRemove ''9'']\<rparr>)
   \<and> dispatch [] \<lparr>meth = DELETE, path = [''items'', ''9''], http_body = Undefined\<rparr>
        \<lparr>items = [\<lparr>item_id = ''1'', item_name = Str ''Item One''\<rparr>,
                  \<lparr>item_id = ''2'', item_name = Str ''Item Two''\<rparr>], svc_calls = []\<rparr> =
       (Sent \<lparr>code = 404, payload = PJson (Obj [(''message'', Str ''Item 9 not found'')])\<rparr>,
        \<lparr>items = [\<lparr>item_id = ''1'', item_name = Str ''Item One''\<rparr>,
                  \<lparr>item_id = ''2'', item_name = Str ''Item Two''\<rparr>],
         svc_calls = [CallRemove ''9'']\<rparr>)"
  using deleteItem_200_or_404 [of "\<lparr>items = [\<lparr>item_id = ''1'', item_name = Str ''Item One''\<rparr>,
                  \<lparr>item_id = ''2'', item_name = Str ''Item Two''\<rparr>], svc_calls = []\<rparr>" "''2''" "[]" Undefined]
    deleteItem_200_or_404 [of "\<lparr>items = [\<lparr>item_id = ''1'', item_name = Str ''Item One''\<rparr>,
                  \<lparr>item_id = ''2'', item_name = Str ''Item Two''\<rparr>], svc_calls = []\<rparr>" "''9''" "[]" Undefined]
  by (simp add: deleteItem_def remove_item_def splice_arr_def not_found_def first_at_def Let_def
      less_Suc_eq_0_disj dispatch_def itemRoutes_def deleteItemSchema_def invoke_def)

text \<open>
  Claim C10. \<open>update\<close> looks at the id only: on an id that some item has, whatever value
  is passed as the name, the empty string and \<open>undefined\<close> among them, is written into
  the first item with that id, and the record is returned. The schema of the update
  route declares no body, and \<open>updateItem\<close> on a body object without a \<open>name\<close> calls
  \<open>update\<close> with \<open>undefined\<close>: it answers 200 and the item is left with no name.
\<close>

theorem update_performs_no_validation:
  assumes "\<exists>x\<in>set xs. item_id x = i"
  shows "\<exists>k. first_at i xs k
           \<and> (\<forall>name. update i name xs =
                 (Found \<lparr>item_id = i, item_name = name\<rparr>,
                  xs[k := \<lparr>item_id = i, item_name = name\<rparr>]))
           \<and> item_name (snd (update i (Str []) xs) ! k) = Str []
           \<and> item_name (snd (update i Undefined xs) ! k) = Undefined
           \<and> schema_body updateItemSchema = None
           \<and> (\<forall>kvs uuid calls. map_of kvs ''name'' = None \<longrightarrow>
                 updateItem uuid \<lparr>params_id = i, body = Obj kvs\<rparr>
                     \<lparr>items = xs, svc_calls = calls\<rparr> =
                   Inr (\<lparr>code = 200, payload = PItem \<lparr>item_id = i, item_name = Undefined\<rparr>\<rparr>,
                        \<lparr>items = xs[k := \<lparr>item_id = i, item_name = Undefined\<rparr>],
                         svc_calls = calls @ [CallUpdate i Undefined]\<rparr>))"
proof -
  from update_present [OF assms] obtain k where fa: "first_at i xs k"
    and u: "\<And>name. update i name xs =
              (Found \<lparr>item_id = i, item_name = name\<rparr>, xs[k := \<lparr>item_id = i, item_name = name\<rparr>])"
    by blast
  from fa have lt: "k < length xs" by (simp add: first_at_def)
  have e: "item_name (snd (update i (Str []) xs) ! k) = Str []"
    using lt by (simp add: u)
  have n: "item_name (snd (update i Undefined xs) ! k) = Undefined"
    using lt by (simp add: u)
  have s: "schema_body updateItemSchema = None"
    by (simp add: updateItemSchema_def)
  have h: "updateItem uuid \<lparr>params_id = i, body = Obj kvs\<rparr> \<lparr>items = xs, svc_calls = calls\<rparr> =
             Inr (\<lparr>code = 200, payload = PItem \<lparr>item_id = i, item_name = Undefined\<rparr>\<rparr>,
                  \<lparr>items = xs[k := \<lparr>item_id = i, item_name = Undefined\<rparr>],
                   svc_calls = calls @ [CallUpdate i Undefined]\<rparr>)"
    if "map_of kvs ''name'' = None" for kvs uuid calls
    using that by (simp add: updateItem_def Let_def u)
  from fa u e n s h show ?thesis by blast
qed

theorem update_performs_no_validation_witness:
  "(\<exists>x\<in>set [\<lparr>item_id = ''1'', item_name = Str ''Item One''\<rparr>]. item_id x = ''1'')
   \<and> first_at ''1'' [\<lparr>item_id = ''1'', item_name = Str ''Item One''\<rparr>] 0
   \<and> update ''1'' Undefined [\<lparr>item_id = ''1'', item_name = Str ''Item One''\<rparr>] =
       (Found \<lparr>item_id = ''1'', item_name = Undefined\<rparr>,
        [\<lparr>item_id = ''1'', item_name = Undefined\<rparr>])
   \<and> update ''1'' (Str []) [\<lparr>item_id = ''1'', item_name = Str ''Item One''\<rparr>] =
       (Found \<lparr>item_id = ''1'', item_name = Str []\<rparr>,
        [\<lparr>item_id = ''1'', item_name = Str []\<rparr>])
   \<and> map_of ([] :: (string \<times> jsval) list) ''name'' = None
   \<and> updateItem [] \<lparr>params_id = ''1'', body = Obj []\<rparr>
        \<lparr>items = [\<lparr>item_id = ''1'', item_name = Str ''Item One''\<rparr>], svc_calls = []\<rparr> =
       Inr (\<lparr>code = 200, payload = PItem \<lparr>item_id = ''1'', item_name = Undefined\<rparr>\<rparr>,
            \<lparr>items = [\<lparr>item_id = ''1'', item_name = Undefined\<rparr>],
             svc_calls = [CallUpdate ''1'' Undefined]\<rparr>)"
  using update_performs_no_validation [of "[\<lparr>item_id = ''1'', item_name = Str ''Item One''\<rparr>]" "''1''"]
  by (simp add: update_def updateItem_def first_at_def Let_def)

text \<open>
  Claim C5. A \<open>POST /items\<close> request whose body object has no \<open>name\<close> fails the body
  schema of the route: the outcome is the 400 client error carrying the violation
  "required field name is missing", and the state comes back as it was, the array
  unchanged and no call into the service module logged.
\<close>

theorem post_without_name_rejected:
  assumes "map_of kvs ''name'' = None"
  shows "dispatch uuid \<lparr>meth = POST, path = [''items''], http_body = Obj kvs\<rparr> w =
           (ClientError [MissingRequired ''name''], w)
         \<and> statusCode (fst (dispatch uuid
               \<lparr>meth = POST, path = [''items''], http_body = Obj kvs\<rparr> w)) = 400
         \<and> items (snd (dispatch uuid
               \<lparr>meth = POST, path = [''items''], http_body = Obj kvs\<rparr> w)) = items w
         \<and> svc_calls (snd (dispatch uuid
               \<lparr>meth = POST, path = [''items''], http_body = Obj kvs\<rparr> w)) = svc_calls w"
proof -
  have r: "find_route POST [''items''] itemRoutes =
             Some (\<lparr>r_method = POST, r_url = [Lit ''items''],
                    r_schema = addItemSchema, r_handler = addItem\<rparr>, [])"
    by (simp add: itemRoutes_def)
  have v: "validate (Obj kvs) \<lparr>bs_type = TObject, bs_required = [''name''],
                                bs_properties = [(''name'', TString)]\<rparr> =
             [MissingRequired ''name'']"
    using assms by (simp add: validate_def)
  have "dispatch uuid \<lparr>meth = POST, path = [''items''], http_body = Obj kvs\<rparr> w =
           (ClientError [MissingRequired ''name''], w)"
    by (simp add: dispatch_def r addItemSchema_def v)
  then show ?thesis by simp
qed

theorem post_without_name_rejected_witness:
  "map_of ([] :: (string \<times> jsval) list) ''name'' = None
   \<and> dispatch [] \<lparr>meth = POST, path = [''items''], http_body = Obj []\<rparr>
        \<lparr>items = [\<lparr>item_id = ''1'', item_name = Str ''Item One''\<rparr>], svc_calls = []\<rparr> =
       (ClientError [MissingRequired ''name''],
        \<lparr>items = [\<lparr>item_id = ''1'', item_name = Str ''Item One''\<rparr>], svc_calls = []\<rparr>)"
  using post_without_name_rejected [of "[]" "[]"
      "\<lparr>items = [\<lparr>item_id = ''1'', item_name = Str ''Item One''\<rparr>], svc_calls = []\<rparr>"]
  by simp

text \<open>
  Claim C1 against the code. The schema of the update route declares no body, so a
  \<open>PUT /items/1\<close> request with the body \<open>{}\<close> is not validated: the handler runs, calls
  \<open>update\<close> with \<open>undefined\<close> as the name, and the answer is 200 with the item, now
  without a name, where the claim has a 400 and no call of the service.
\<close>

theorem put_without_name_reaches_update:
  "dispatch [] \<lparr>meth = PUT, path = [''items'', ''1''], http_body = Obj []\<rparr>
       \<lparr>items = [\<lparr>item_id = ''1'', item_name = Str ''Item One''\<rparr>], svc_calls = []\<rparr> =
     (Sent \<lparr>code = 200, payload = PItem \<lparr>item_id = ''1'', item_name = Undefined\<rparr>\<rparr>,
      \<lparr>items = [\<lparr>item_id = ''1'', item_name = Undefined\<rparr>],
       svc_calls = [CallUpdate ''1'' Undefined]\<rparr>)"
  by (simp add: dispatch_def itemRoutes_def updateItemSchema_def invoke_def updateItem_def
      update_def Let_def)

end
